theory Spec2Isabelle
  imports Complex_Main
begin

section \<open>Operation model\<close>

text \<open>
  The gate type tags used by the optimizer passes. The enumeration itself is declared
  in a header outside the sources at hand; the tags below are the ones the passes and
  \<open>NonUnitaryOperation.cpp\<close> name, and \<open>OtherGate\<close> stands for every remaining tag.
\<close>

datatype OpType =
    I | H | X | Y | Z | S | Sdg | T | Tdg | SX | SXdg | SWAP
  | Barrier | Compound | Measure | Reset | Snapshot | ShowProbabilities
  | ClassicControlled | OtherGate nat

datatype ControlType = Pos | Neg

datatype Control = Control (qubit: nat) (ctype: ControlType)

type_synonym Qubit = nat
type_synonym fp = real
type_synonym Targets = "Qubit list"
type_synonym Controls = "Control list"

text \<open>
  Modelled from the spec: the operation class hierarchy (Standard, Compound, NonUnitary,
  ClassicControlled) is declared in headers that are not part of the sources; section 3
  of the specification describes it as a closed variant type. A Standard operation has a
  type tag, controls, targets and parameters; a Compound owns an ordered sequence of
  children; a NonUnitary operation has, as \<open>NonUnitaryOperation.cpp\<close> shows, a type tag,
  a qubit count, the inherited target list, the measured-qubit list \<open>qubits\<close>, the
  classical-bit list \<open>classics\<close> and the parameters; a ClassicControlled operation
  wraps one operation and adds the control register (start index, length) and the
  expected value. A set of controls is kept as the list of its elements in iteration
  order.
\<close>

datatype Operation =
    StandardOperation OpType Controls Targets "fp list"
  | CompoundOperation "Operation list"
  | NonUnitaryOperation OpType nat Targets "Qubit list" "nat list" "fp list"
  | ClassicControlledOperation Operation "nat \<times> nat" nat

datatype error =
    InvalidArgument
  | QFRException
  | OutOfRange
  | NullDereference
  | UndefinedBehaviour
  | InfiniteLoop

fun getType :: "Operation \<Rightarrow> OpType" where
  "getType (StandardOperation ty cs ts ps) = ty"
| "getType (CompoundOperation children) = Compound"
| "getType (NonUnitaryOperation ty nq ts qs cls ps) = ty"
| "getType (ClassicControlledOperation opr reg v) = ClassicControlled"

fun isStandardOperation :: "Operation \<Rightarrow> bool" where
  "isStandardOperation (StandardOperation ty cs ts ps) = True"
| "isStandardOperation opr = False"

fun isCompoundOperation :: "Operation \<Rightarrow> bool" where
  "isCompoundOperation (CompoundOperation children) = True"
| "isCompoundOperation opr = False"

text \<open>
  Modelled from the spec: \<open>isNonUnitaryOperation\<close> is declared in the missing headers. A
  Compound answers it for its children: the pass that removes final measurements tests
  \<open>op->isCompoundOperation() && op->isNonUnitaryOperation()\<close>, so a Compound is
  non-unitary when one of its children is.
\<close>

fun isNonUnitaryOperation :: "Operation \<Rightarrow> bool" where
  "isNonUnitaryOperation (NonUnitaryOperation ty nq ts qs cls ps) = True"
| "isNonUnitaryOperation (CompoundOperation children) = list_ex isNonUnitaryOperation children"
| "isNonUnitaryOperation opr = False"

text \<open>\<open>dynamic_cast<NonUnitaryOperation*>\<close> succeeds on objects of that class only.\<close>

fun asNonUnitaryOperation :: "Operation \<Rightarrow> bool" where
  "asNonUnitaryOperation (NonUnitaryOperation ty nq ts qs cls ps) = True"
| "asNonUnitaryOperation opr = False"

fun isClassicControlledOperation :: "Operation \<Rightarrow> bool" where
  "isClassicControlledOperation (ClassicControlledOperation opr reg v) = True"
| "isClassicControlledOperation opr = False"

section \<open>NonUnitaryOperation.cpp\<close>

text \<open>The parameter array of a freshly constructed operation.\<close>

definition defaultParameter :: "fp list" where
  "defaultParameter = [0, 0, 0]"

text \<open>
  The measurement constructor taking two registers: it throws \<open>std::invalid_argument\<close>
  when the registers differ in size and otherwise stores both lists as given.
\<close>

definition MeasureRegisters :: "nat \<Rightarrow> Qubit list \<Rightarrow> nat list \<Rightarrow> error + Operation" where
  "MeasureRegisters nq qubitRegister classicalRegister =
     (if length qubitRegister \<noteq> length classicalRegister then Inl InvalidArgument
      else Inr (NonUnitaryOperation Measure nq [] qubitRegister classicalRegister
                  defaultParameter))"

text \<open>The measurement constructor taking one qubit and one classical bit.\<close>

definition MeasureSingle :: "nat \<Rightarrow> Qubit \<Rightarrow> nat \<Rightarrow> Operation" where
  "MeasureSingle nq q clbit = NonUnitaryOperation Measure nq [] [q] [clbit] defaultParameter"

text \<open>The general constructor: a type tag and a target register.\<close>

definition NonUnitaryGeneral :: "nat \<Rightarrow> Qubit list \<Rightarrow> OpType \<Rightarrow> Operation" where
  "NonUnitaryGeneral nq qubitRegister opr =
     NonUnitaryOperation opr nq qubitRegister [] [] defaultParameter"

text \<open>The snapshot constructor delegates to the general one and sets parameter 0.\<close>

definition NonUnitarySnapshot :: "nat \<Rightarrow> Qubit list \<Rightarrow> nat \<Rightarrow> Operation" where
  "NonUnitarySnapshot nq qubitRegister n =
     (case NonUnitaryGeneral nq qubitRegister Snapshot of
        NonUnitaryOperation ty nq' ts qs cls ps \<Rightarrow>
          NonUnitaryOperation ty nq' ts qs cls (ps[0 := real n])
      | opr \<Rightarrow> opr)"

text \<open>
  Every way the file offers to construct a non-unitary operation; the register
  constructor is the only one that can fail.
\<close>

datatype NonUnitaryCtor =
    CtorMeasureRegisters nat "Qubit list" "nat list"
  | CtorMeasureSingle nat Qubit nat
  | CtorSnapshot nat "Qubit list" nat
  | CtorGeneral nat "Qubit list" OpType

fun constructNonUnitary :: "NonUnitaryCtor \<Rightarrow> error + Operation" where
  "constructNonUnitary (CtorMeasureRegisters nq qs cls) = MeasureRegisters nq qs cls"
| "constructNonUnitary (CtorMeasureSingle nq q c) = Inr (MeasureSingle nq q c)"
| "constructNonUnitary (CtorSnapshot nq qs n) = Inr (NonUnitarySnapshot nq qs n)"
| "constructNonUnitary (CtorGeneral nq qs ty) = Inr (NonUnitaryGeneral nq qs ty)"

text \<open>The measured-qubit list and the classical-bit list of a non-unitary operation.\<close>

fun qubits :: "Operation \<Rightarrow> Qubit list" where
  "qubits (NonUnitaryOperation ty nq ts qs cls ps) = qs"
| "qubits opr = []"

fun classics :: "Operation \<Rightarrow> nat list" where
  "classics (NonUnitaryOperation ty nq ts qs cls ps) = cls"
| "classics opr = []"

text \<open>
  \<open>NonUnitaryOperation::actsOn\<close>: a Measure acts on its measured qubits, a Reset on its
  targets, every other non-unitary operation on nothing.
\<close>

fun NonUnitary_actsOn :: "OpType \<Rightarrow> Targets \<Rightarrow> Qubit list \<Rightarrow> Qubit \<Rightarrow> bool" where
  "NonUnitary_actsOn ty ts qs i =
     (if ty = Measure then list_ex (\<lambda>q. q = i) qs
      else if ty = Reset then list_ex (\<lambda>t. t = i) ts
      else False)"

section \<open>Accessors of the operation model\<close>

text \<open>
  Modelled from the spec: the accessors \<open>getControls\<close>, \<open>getTargets\<close>, \<open>getNcontrols\<close>,
  \<open>getUsedQubits\<close>, \<open>actsOn\<close> and \<open>isUnitary\<close> are declared in the missing headers
  (section 6 of the specification lists them). A Compound keeps no controls or targets
  of its own; a Measure answers \<open>getTargets\<close> with its measured qubits (the deferral pass
  reads the measured qubit as \<open>getTargets()[0]\<close>); a ClassicControlled operation forwards
  to the operation it wraps; \<open>getUsedQubits\<close> is the ascending set of targets and control
  qubits, united over the children of a Compound. The NonUnitary case of \<open>actsOn\<close> is the
  function of \<open>NonUnitaryOperation.cpp\<close>.
\<close>

fun getControls :: "Operation \<Rightarrow> Controls" where
  "getControls (StandardOperation ty cs ts ps) = cs"
| "getControls (CompoundOperation children) = []"
| "getControls (NonUnitaryOperation ty nq ts qs cls ps) = []"
| "getControls (ClassicControlledOperation opr reg v) = getControls opr"

fun getTargets :: "Operation \<Rightarrow> Targets" where
  "getTargets (StandardOperation ty cs ts ps) = ts"
| "getTargets (CompoundOperation children) = []"
| "getTargets (NonUnitaryOperation ty nq ts qs cls ps) = (if ty = Measure then qs else ts)"
| "getTargets (ClassicControlledOperation opr reg v) = getTargets opr"

definition getNcontrols :: "Operation \<Rightarrow> nat" where
  "getNcontrols opr = length (getControls opr)"

fun usedQubitList :: "Operation \<Rightarrow> Qubit list" where
  "usedQubitList (CompoundOperation children) = concat (map usedQubitList children)"
| "usedQubitList opr = getTargets opr @ map qubit (getControls opr)"

definition getUsedQubits :: "Operation \<Rightarrow> Qubit list" where
  "getUsedQubits opr = sort (remdups (usedQubitList opr))"

fun actsOn :: "Operation \<Rightarrow> Qubit \<Rightarrow> bool" where
  "actsOn (StandardOperation ty cs ts ps) i =
     (list_ex (\<lambda>t. t = i) ts \<or> list_ex (\<lambda>c. qubit c = i) cs)"
| "actsOn (CompoundOperation children) i = list_ex (\<lambda>c. actsOn c i) children"
| "actsOn (NonUnitaryOperation ty nq ts qs cls ps) i = NonUnitary_actsOn ty ts qs i"
| "actsOn (ClassicControlledOperation opr reg v) i = actsOn opr i"

fun isUnitary :: "Operation \<Rightarrow> bool" where
  "isUnitary (StandardOperation ty cs ts ps) = True"
| "isUnitary (CompoundOperation children) = list_all isUnitary children"
| "isUnitary (NonUnitaryOperation ty nq ts qs cls ps) = False"
| "isUnitary (ClassicControlledOperation opr reg v) = False"

text \<open>
  Modelled from the spec: the circuit container (section 3): the qubit count, the owned
  operation sequence and the two layouts, each a map from physical to logical qubits
  kept as an association list in key order.
\<close>

record QuantumComputation =
  nqubits :: nat
  ops :: "Operation list"
  initialLayout :: "(Qubit \<times> Qubit) list"
  outputPermutation :: "(Qubit \<times> Qubit) list"

section \<open>removeIdentities\<close>

text \<open>
  The inner loop over the children of a Compound: a child whose type tag is \<open>I\<close> is
  erased, every other child is kept and not looked into.
\<close>

fun eraseIdentityChildren :: "Operation list \<Rightarrow> Operation list" where
  "eraseIdentityChildren [] = []"
| "eraseIdentityChildren (cop # rest) =
     (if getType cop = I then eraseIdentityChildren rest
      else cop # eraseIdentityChildren rest)"

text \<open>
  The outer loop: an identity is erased; a Compound has its identity children erased,
  is erased itself when it became empty, and is replaced by its only child when one
  child is left; the cursor then moves on, so a promoted child is not examined.
\<close>

fun removeIdentitiesOps :: "Operation list \<Rightarrow> Operation list" where
  "removeIdentitiesOps [] = []"
| "removeIdentitiesOps (opr # rest) =
     (if getType opr = I then removeIdentitiesOps rest
      else (case opr of
              CompoundOperation children \<Rightarrow>
                (let compOp = eraseIdentityChildren children in
                 if compOp = [] then removeIdentitiesOps rest
                 else if length compOp = 1 then hd compOp # removeIdentitiesOps rest
                 else CompoundOperation compOp # removeIdentitiesOps rest)
            | _ \<Rightarrow> opr # removeIdentitiesOps rest))"

definition removeIdentities :: "QuantumComputation \<Rightarrow> QuantumComputation" where
  "removeIdentities qc = qc\<lparr>ops := removeIdentitiesOps (ops qc)\<rparr>"

text \<open>The children of a Compound; no other operation has any.\<close>

fun children :: "Operation \<Rightarrow> Operation list" where
  "children (CompoundOperation cs) = cs"
| "children opr = []"

text \<open>No Compound of the sequence has a Compound among its children.\<close>

definition flatCompounds :: "Operation list \<Rightarrow> bool" where
  "flatCompounds os = list_all (\<lambda>opr. list_all (\<lambda>c. \<not> isCompoundOperation c) (children opr)) os"

text \<open>No identity at the top level and none among the children of a Compound.\<close>

definition noIdentity :: "Operation list \<Rightarrow> bool" where
  "noIdentity os = list_all (\<lambda>opr. getType opr \<noteq> I
                       \<and> list_all (\<lambda>c. getType c \<noteq> I) (children opr)) os"

text \<open>What one pass of the outer loop leaves in place of a single operation.\<close>

definition riOne :: "Operation \<Rightarrow> Operation list" where
  "riOne opr =
     (if getType opr = I then []
      else if isCompoundOperation opr then
        (let compOp = filter (\<lambda>c. getType c \<noteq> I) (children opr) in
         if compOp = [] then [] else if length compOp = 1 then [hd compOp]
         else [CompoundOperation compOp])
      else [opr])"

text \<open>A circuit over the given operations with \<open>n\<close> qubits and identity layouts.\<close>

definition circuit :: "nat \<Rightarrow> Operation list \<Rightarrow> QuantumComputation" where
  "circuit n os = \<lparr>nqubits = n, ops = os, initialLayout = map (\<lambda>q. (q, q)) [0..<n],
                   outputPermutation = map (\<lambda>q. (q, q)) [0..<n]\<rparr>"

section \<open>decomposeSWAP\<close>

text \<open>
  The two StandardOperation constructors the pass calls: a gate on one target, and a
  gate on one target with one positive control.
\<close>

definition StandardGate :: "Qubit \<Rightarrow> OpType \<Rightarrow> Operation" where
  "StandardGate target g = StandardOperation g [] [target] defaultParameter"

definition ControlledGate :: "Qubit \<Rightarrow> Qubit \<Rightarrow> OpType \<Rightarrow> Operation" where
  "ControlledGate control target g =
     StandardOperation g [Control control Pos] [target] defaultParameter"

text \<open>
  The sequence of \<open>insert\<close> calls that follows the erasure of a SWAP. The cursor stays on
  the element inserted last, so every insertion puts its operation in front of the
  ones inserted before; \<open>rest\<close> is the sequence from the cursor on.
\<close>

definition insertReplacement :: "bool \<Rightarrow> Qubit \<Rightarrow> Qubit \<Rightarrow> Operation list \<Rightarrow> Operation list" where
  "insertReplacement isDirectedArchitecture t0 t1 rest =
     (let it1 = ControlledGate t0 t1 X # rest;
          it2 = (if isDirectedArchitecture then
                   (let a = StandardGate t0 H # it1;
                        b = StandardGate t1 H # a;
                        c = ControlledGate t0 t1 X # b;
                        d = StandardGate t0 H # c
                    in StandardGate t1 H # d)
                 else ControlledGate t1 t0 X # it1)
      in ControlledGate t0 t1 X # it2)"

text \<open>
  The number of Standard SWAP operations of a sequence; it bounds the number of
  replacements still to come.
\<close>

definition swapCount :: "Operation list \<Rightarrow> nat" where
  "swapCount os = length (filter (\<lambda>opr. isStandardOperation opr \<and> getType opr = SWAP) os)"

text \<open>
  The loop over the children of a Compound. After a replacement the cursor is on the
  first inserted operation, which the next iteration examines. Reading \<open>targets[0]\<close> or
  \<open>targets[1]\<close> of a SWAP with fewer than two targets is undefined behaviour.
\<close>

function decomposeSWAPChildren :: "bool \<Rightarrow> Operation list \<Rightarrow> error + Operation list" where
  "decomposeSWAPChildren isDirectedArchitecture [] = Inr []"
| "decomposeSWAPChildren isDirectedArchitecture (cit # rest) =
     (if isStandardOperation cit \<and> getType cit = SWAP then
        (case getTargets cit of
           t0 # t1 # others \<Rightarrow>
             decomposeSWAPChildren isDirectedArchitecture
               (insertReplacement isDirectedArchitecture t0 t1 rest)
         | _ \<Rightarrow> Inl UndefinedBehaviour)
      else (case decomposeSWAPChildren isDirectedArchitecture rest of
              Inl e \<Rightarrow> Inl e
            | Inr out \<Rightarrow> Inr (cit # out)))"
  by pat_completeness auto
termination
  by (relation "measure (\<lambda>(d, os). 8 * swapCount os + length os)")
     (auto simp: swapCount_def insertReplacement_def StandardGate_def ControlledGate_def
        Let_def)

text \<open>The loop over the circuit; a Compound has its children processed in place.\<close>

function decomposeSWAPOps :: "bool \<Rightarrow> Operation list \<Rightarrow> error + Operation list" where
  "decomposeSWAPOps isDirectedArchitecture [] = Inr []"
| "decomposeSWAPOps isDirectedArchitecture (it # rest) =
     (if isStandardOperation it then
        (if getType it = SWAP then
           (case getTargets it of
              t0 # t1 # others \<Rightarrow>
                decomposeSWAPOps isDirectedArchitecture
                  (insertReplacement isDirectedArchitecture t0 t1 rest)
            | _ \<Rightarrow> Inl UndefinedBehaviour)
         else (case decomposeSWAPOps isDirectedArchitecture rest of
                 Inl e \<Rightarrow> Inl e
               | Inr out \<Rightarrow> Inr (it # out)))
      else if isCompoundOperation it then
        (case decomposeSWAPChildren isDirectedArchitecture (children it) of
           Inl e \<Rightarrow> Inl e
         | Inr compOp \<Rightarrow>
             (case decomposeSWAPOps isDirectedArchitecture rest of
                Inl e \<Rightarrow> Inl e
              | Inr out \<Rightarrow> Inr (CompoundOperation compOp # out)))
      else (case decomposeSWAPOps isDirectedArchitecture rest of
              Inl e \<Rightarrow> Inl e
            | Inr out \<Rightarrow> Inr (it # out)))"
  by pat_completeness auto
termination
  by (relation "measure (\<lambda>(d, os). 8 * swapCount os + length os)")
     (auto simp: swapCount_def insertReplacement_def StandardGate_def ControlledGate_def
        Let_def)

definition decomposeSWAP :: "QuantumComputation \<Rightarrow> bool \<Rightarrow> error + QuantumComputation" where
  "decomposeSWAP qc isDirectedArchitecture =
     (case decomposeSWAPOps isDirectedArchitecture (ops qc) of
        Inl e \<Rightarrow> Inl e
      | Inr os \<Rightarrow> Inr (qc\<lparr>ops := os\<rparr>))"

text \<open>
  The specification's reading of the undirected pass, written from its words: a SWAP on
  \<open>(a, b)\<close> becomes CNOT(a,b); CNOT(b,a); CNOT(a,b) at its position, at the top level
  and among the children of a top-level Compound; everything else stays.
\<close>

definition CNOT :: "Qubit \<Rightarrow> Qubit \<Rightarrow> Operation" where
  "CNOT a b = StandardOperation X [Control a Pos] [b] defaultParameter"

definition specSWAP :: "Operation \<Rightarrow> Operation list" where
  "specSWAP opr =
     (if isStandardOperation opr \<and> getType opr = SWAP then
        [CNOT (getTargets opr ! 0) (getTargets opr ! 1),
         CNOT (getTargets opr ! 1) (getTargets opr ! 0),
         CNOT (getTargets opr ! 0) (getTargets opr ! 1)]
      else [opr])"

definition specDecomposeSWAP :: "Operation list \<Rightarrow> Operation list" where
  "specDecomposeSWAP os =
     concat (map (\<lambda>opr. if isCompoundOperation opr
                        then [CompoundOperation (concat (map specSWAP (children opr)))]
                        else specSWAP opr) os)"

text \<open>Every SWAP at the top level or among the children of a Compound has two targets.\<close>

definition swapHasTargets :: "Operation \<Rightarrow> bool" where
  "swapHasTargets opr =
     (isStandardOperation opr \<and> getType opr = SWAP \<longrightarrow> 2 \<le> length (getTargets opr))"

definition wellFormedSWAPs :: "Operation list \<Rightarrow> bool" where
  "wellFormedSWAPs os =
     list_all (\<lambda>opr. swapHasTargets opr \<and> list_all swapHasTargets (children opr)) os"

section \<open>Lane DAG\<close>

text \<open>
  The lane DAG is a vector with one lane per qubit; a lane is a vector of references to
  operations. \<open>dag.at(q).push_back(r)\<close> throws \<open>std::out_of_range\<close> when \<open>q\<close> is not an
  index of the vector.
\<close>

type_synonym 'r DAG = "'r list list"

definition dagPush :: "'r DAG \<Rightarrow> Qubit \<Rightarrow> 'r \<Rightarrow> error + 'r DAG" where
  "dagPush dag q r = (if q < length dag then Inr (dag[q := dag ! q @ [r]]) else Inl OutOfRange)"

fun dagPushAll :: "'r DAG \<Rightarrow> Qubit list \<Rightarrow> 'r \<Rightarrow> error + 'r DAG" where
  "dagPushAll dag [] r = Inr dag"
| "dagPushAll dag (q # qs) r =
     (case dagPush dag q r of Inl e \<Rightarrow> Inl e | Inr dag' \<Rightarrow> dagPushAll dag' qs r)"

text \<open>\<open>addToDag\<close>: the reference goes on the lane of every control, then of every target.\<close>

definition addToDag :: "'r DAG \<Rightarrow> 'r \<Rightarrow> Operation \<Rightarrow> error + 'r DAG" where
  "addToDag dag r opr = dagPushAll dag (map qubit (getControls opr) @ getTargets opr) r"

text \<open>The largest physical qubit of the initial layout, 0 for an empty layout.\<close>

definition highestPhysicalQubit :: "QuantumComputation \<Rightarrow> Qubit" where
  "highestPhysicalQubit qc = fold (\<lambda>q h. max (fst q) h) (initialLayout qc) 0"

definition emptyDAG :: "QuantumComputation \<Rightarrow> 'r DAG" where
  "emptyDAG qc = replicate (highestPhysicalQubit qc + 1) []"

section \<open>isDynamicCircuit\<close>

text \<open>
  The scan of the operations carries the lane DAG, whose references are modelled by the
  operations they point to (the function only reads them), and the flag
  \<open>hasMeasurements\<close>. The result \<open>None\<close> stands for the early \<open>return true\<close>.
\<close>

fun dynamicCompound ::
  "Operation DAG \<times> bool \<Rightarrow> Operation list \<Rightarrow> error + (Operation DAG \<times> bool) option" where
  "dynamicCompound (dag, hasMeasurements) [] = Inr (Some (dag, hasMeasurements))"
| "dynamicCompound (dag, hasMeasurements) (opr # rest) =
     (if getType opr = Reset \<or> isClassicControlledOperation opr then Inr None
      else
        (let hasMeasurements' = (if getType opr = Measure then True else hasMeasurements) in
         case (if isNonUnitaryOperation opr then dagPushAll dag (getTargets opr) opr
               else addToDag dag opr opr) of
           Inl e \<Rightarrow> Inl e
         | Inr dag' \<Rightarrow> dynamicCompound (dag', hasMeasurements') rest))"

fun dynamicOps ::
  "Operation DAG \<times> bool \<Rightarrow> Operation list \<Rightarrow> error + (Operation DAG \<times> bool) option" where
  "dynamicOps (dag, hasMeasurements) [] = Inr (Some (dag, hasMeasurements))"
| "dynamicOps (dag, hasMeasurements) (it # rest) =
     (if \<not> isStandardOperation it then
        (if isNonUnitaryOperation it then
           (if getType it = Reset then Inr None
            else
              (let hasMeasurements' = (if getType it = Measure then True else hasMeasurements) in
               case dagPushAll dag (getTargets it) it of
                 Inl e \<Rightarrow> Inl e
               | Inr dag' \<Rightarrow> dynamicOps (dag', hasMeasurements') rest))
         else if isClassicControlledOperation it then Inr None
         else if isCompoundOperation it then
           (case dynamicCompound (dag, hasMeasurements) (children it) of
              Inl e \<Rightarrow> Inl e
            | Inr None \<Rightarrow> Inr None
            | Inr (Some st) \<Rightarrow> dynamicOps st rest)
         else dynamicOps (dag, hasMeasurements) rest)
      else (case addToDag dag it it of
              Inl e \<Rightarrow> Inl e
            | Inr dag' \<Rightarrow> dynamicOps (dag', hasMeasurements) rest))"

text \<open>
  The backward walk over one lane, given last operation first: it stops at the first
  Measure and until then records whether a Standard, ClassicControlled or Compound
  operation or a Reset was seen. The result is the pair of flags
  \<open>(operation, measurement)\<close>.
\<close>

definition countsAsOperation :: "Operation \<Rightarrow> bool" where
  "countsAsOperation opr =
     (isStandardOperation opr \<or> isClassicControlledOperation opr
      \<or> isCompoundOperation opr \<or> getType opr = Reset)"

fun laneWalk :: "Operation list \<Rightarrow> bool \<Rightarrow> bool \<times> bool" where
  "laneWalk [] operation = (operation, False)"
| "laneWalk (opr # rest) operation =
     (if getType opr = Measure then (operation, True)
      else laneWalk rest (if countsAsOperation opr then True else operation))"

fun lanesDynamic :: "Operation DAG \<Rightarrow> bool" where
  "lanesDynamic [] = False"
| "lanesDynamic (qubitDAG # rest) =
     (case laneWalk (rev qubitDAG) False of
        (operation, measurement) \<Rightarrow>
          if measurement \<and> operation then True else lanesDynamic rest)"

definition isDynamicCircuit :: "QuantumComputation \<Rightarrow> error + bool" where
  "isDynamicCircuit qc =
     (case dynamicOps (emptyDAG qc, False) (ops qc) of
        Inl e \<Rightarrow> Inl e
      | Inr None \<Rightarrow> Inr True
      | Inr (Some (dag, hasMeasurements)) \<Rightarrow>
          if \<not> hasMeasurements then Inr False else Inr (lanesDynamic dag))"

section \<open>swapReconstruction\<close>

text \<open>
  Modelled from the spec: the mutation hooks \<open>setGate\<close>, \<open>clearControls\<close>, \<open>setTargets\<close>
  and \<open>setControls\<close> of section 6 are declared in the missing headers. They overwrite the
  field they name; the passes call them on Standard operations only.
\<close>

fun setGate :: "OpType \<Rightarrow> Operation \<Rightarrow> Operation" where
  "setGate g (StandardOperation ty cs ts ps) = StandardOperation g cs ts ps"
| "setGate g (NonUnitaryOperation ty nq ts qs cls ps) = NonUnitaryOperation g nq ts qs cls ps"
| "setGate g opr = opr"

fun clearControls :: "Operation \<Rightarrow> Operation" where
  "clearControls (StandardOperation ty cs ts ps) = StandardOperation ty [] ts ps"
| "clearControls opr = opr"

fun setTargets :: "Targets \<Rightarrow> Operation \<Rightarrow> Operation" where
  "setTargets t (StandardOperation ty cs ts ps) = StandardOperation ty cs t ps"
| "setTargets t (NonUnitaryOperation ty nq ts qs cls ps) =
     (if ty = Measure then NonUnitaryOperation ty nq ts t cls ps
      else NonUnitaryOperation ty nq t qs cls ps)"
| "setTargets t opr = opr"

fun setControls :: "Controls \<Rightarrow> Operation \<Rightarrow> Operation" where
  "setControls c (StandardOperation ty cs ts ps) = StandardOperation ty c ts ps"
| "setControls c opr = opr"

text \<open>Sequencing of steps that may throw.\<close>

definition bindE :: "error + 'a \<Rightarrow> ('a \<Rightarrow> error + 'b) \<Rightarrow> error + 'b" where
  "bindE m f = (case m of Inl e \<Rightarrow> Inl e | Inr x \<Rightarrow> f x)"

text \<open>\<open>v.at(i)\<close> throws \<open>std::out_of_range\<close> outside the vector.\<close>

definition vecAt :: "'a list \<Rightarrow> nat \<Rightarrow> error + 'a" where
  "vecAt v i = (if i < length v then Inr (v ! i) else Inl OutOfRange)"

text \<open>\<open>dag.at(q).pop_back()\<close>; popping an empty lane is undefined behaviour.\<close>

definition popBack :: "'r DAG \<Rightarrow> Qubit \<Rightarrow> error + 'r DAG" where
  "popBack dag q =
     (if q < length dag then
        (if dag ! q = [] then Inl UndefinedBehaviour else Inr (dag[q := butlast (dag ! q)]))
      else Inl OutOfRange)"

text \<open>
  \<open>addNonStandardOperationToDag\<close>: a Compound goes on the lanes of its used qubits, a
  NonUnitary operation on those of its targets, a ClassicControlled operation on those
  of the controls and targets of the operation it wraps.
\<close>

fun addNonStandardOperationToDag :: "'r DAG \<Rightarrow> 'r \<Rightarrow> Operation \<Rightarrow> error + 'r DAG" where
  "addNonStandardOperationToDag dag r (CompoundOperation cs) =
     dagPushAll dag (getUsedQubits (CompoundOperation cs)) r"
| "addNonStandardOperationToDag dag r (NonUnitaryOperation ty nq ts qs cls ps) =
     dagPushAll dag (getTargets (NonUnitaryOperation ty nq ts qs cls ps)) r"
| "addNonStandardOperationToDag dag r (ClassicControlledOperation cop reg v) =
     dagPushAll dag (map qubit (getControls cop) @ getTargets cop) r"
| "addNonStandardOperationToDag dag r opr = Inl QFRException"

text \<open>The test the pass applies three times: an X with exactly one, positive, control.\<close>

definition isPosCNOT :: "Operation \<Rightarrow> bool" where
  "isPosCNOT opr =
     (\<not> (getType opr \<noteq> X \<or> getNcontrols opr \<noteq> 1 \<or> ctype (hd (getControls opr)) \<noteq> Pos))"

text \<open>
  One iteration of the loop over the circuit. The state is the operation vector and the
  lane DAG, whose references are the indices of the operations they point to; \<open>i\<close> is
  the index of the current operation.
\<close>

definition swapReconstructionStep ::
  "Operation list \<times> nat DAG \<Rightarrow> nat \<Rightarrow> error + (Operation list \<times> nat DAG)" where
  "swapReconstructionStep st i =
     (case st of (os, dag) \<Rightarrow>
        let it = os ! i;
            keep = bindE (addToDag dag i it) (\<lambda>dag'. Inr (os, dag'))
        in
        if \<not> isStandardOperation it then
          bindE (addNonStandardOperationToDag dag i it) (\<lambda>dag'. Inr (os, dag'))
        else if \<not> isPosCNOT it then keep
        else
          let control = qubit (hd (getControls it)) in
          bindE (vecAt (getTargets it) 0) (\<lambda>target.
          bindE (vecAt dag control) (\<lambda>laneC.
          if laneC = [] then keep
          else
          bindE (vecAt dag target) (\<lambda>laneT.
          if laneT = [] then keep
          else
            let opC = last laneC; opT = last laneT in
            if \<not> isPosCNOT (os ! opC) \<or> \<not> isPosCNOT (os ! opT) then keep
            else
              let opCcontrol = qubit (hd (getControls (os ! opC))) in
              bindE (vecAt (getTargets (os ! opC)) 0) (\<lambda>opCtarget.
              let opTcontrol = qubit (hd (getControls (os ! opT))) in
              bindE (vecAt (getTargets (os ! opT)) 0) (\<lambda>opTtarget.
              if opCcontrol \<noteq> opTcontrol \<or> opCtarget \<noteq> opTtarget then keep
              else if control = opCcontrol \<and> target = opCtarget then
                bindE (popBack dag control) (\<lambda>dag1.
                bindE (popBack dag1 target) (\<lambda>dag2.
                let os1 = os[opC := clearControls (setGate I (os ! opC))];
                    os2 = os1[i := clearControls (setGate I (os1 ! i))]
                in Inr (os2, dag2)))
              else if control = opCtarget \<and> target = opCcontrol then
                bindE (popBack dag control) (\<lambda>dag1.
                bindE (popBack dag1 target) (\<lambda>dag2.
                let os1 = os[opC := clearControls
                             (setTargets (if target > control then [control, target]
                                          else [target, control])
                                (setGate SWAP (os ! opC)))]
                in
                bindE (addToDag dag2 opC (os1 ! opC)) (\<lambda>dag3.
                let os2 = os1[i := setControls [Control target Pos]
                                     (setTargets [control] (os1 ! i))]
                in
                bindE (addToDag dag3 i (os2 ! i)) (\<lambda>dag4. Inr (os2, dag4)))))
              else keep))))))"

fun swapReconstructionLoop ::
  "Operation list \<times> nat DAG \<Rightarrow> nat list \<Rightarrow> error + (Operation list \<times> nat DAG)" where
  "swapReconstructionLoop st [] = Inr st"
| "swapReconstructionLoop st (i # rest) =
     bindE (swapReconstructionStep st i) (\<lambda>st'. swapReconstructionLoop st' rest)"

definition swapReconstruction :: "QuantumComputation \<Rightarrow> error + QuantumComputation" where
  "swapReconstruction qc =
     bindE (swapReconstructionLoop (ops qc, emptyDAG qc) [0..<length (ops qc)])
       (\<lambda>st. Inr (removeIdentities (qc\<lparr>ops := fst st\<rparr>)))"

section \<open>deferMeasurements\<close>

text \<open>\<open>erase\<close> and \<open>insert\<close> of the operation vector, by position.\<close>

definition eraseAt :: "'a list \<Rightarrow> nat \<Rightarrow> 'a list" where
  "eraseAt v i = take i v @ drop (Suc i) v"

definition insertAt :: "'a list \<Rightarrow> nat \<Rightarrow> 'a \<Rightarrow> 'a list" where
  "insertAt v i x = take i v @ x # drop i v"

text \<open>
  Modelled from the spec: \<open>controls.emplace\<close> on the ordered set of controls, whose
  declaration is in the missing headers. Controls are ordered by qubit, a negative
  control before a positive one on the same qubit; an element already present is not
  inserted again.
\<close>

definition controlLess :: "Control \<Rightarrow> Control \<Rightarrow> bool" where
  "controlLess a b =
     (qubit a < qubit b \<or> (qubit a = qubit b \<and> ctype a = Neg \<and> ctype b = Pos))"

fun emplaceControl :: "Control \<Rightarrow> Controls \<Rightarrow> Controls" where
  "emplaceControl c [] = [c]"
| "emplaceControl c (d # ds) =
     (if c = d then d # ds
      else if controlLess c d then c # d # ds
      else d # emplaceControl c ds)"

text \<open>
  Modelled from the spec: \<open>static_cast<Qubit>\<close> of a classical bit index. The type \<open>Qubit\<close>
  is declared in the missing headers; it is an unsigned integer of 32 bits, so the cast
  keeps the index modulo \<open>2^32\<close>.
\<close>

definition castQubit :: "nat \<Rightarrow> nat" where
  "castQubit b = b mod 2 ^ 32"

text \<open>The number of ClassicControlled operations of a sequence.\<close>

definition classicCount :: "Operation list \<Rightarrow> nat" where
  "classicCount os = length (filter isClassicControlledOperation os)"

lemma classicCount_rewrite:
  assumes "\<not> length os \<le> opIt" and "ClassicControlledOperation cop reg v = os ! opIt"
  shows "classicCount (insertAt (eraseAt os opIt) k (StandardOperation ty cs ts ps))
         < classicCount os"
proof -
  from assms have at: "opIt < length os" "isClassicControlledOperation (os ! opIt)"
    by (simp, metis isClassicControlledOperation.simps(1))
  have split: "os = take opIt os @ os ! opIt # drop (Suc opIt) os"
    using at(1) by (simp add: id_take_nth_drop)
  have "classicCount os = Suc (classicCount (eraseAt os opIt))"
    unfolding classicCount_def eraseAt_def
    by (subst split) (simp add: at(2))
  moreover have "classicCount (insertAt xs k (StandardOperation ty cs ts ps))
      = classicCount xs" for xs
  proof -
    have "filter isClassicControlledOperation xs
        = filter isClassicControlledOperation (take k xs)
          @ filter isClassicControlledOperation (drop k xs)"
      by (metis append_take_drop_id filter_append)
    then show ?thesis by (simp add: classicCount_def insertAt_def)
  qed
  ultimately show ?thesis by simp
qed

text \<open>
  The inner loop, which runs from the position of the erased Measure to the end of the
  circuit. \<open>opIt\<close> and \<open>currentInsertionPoint\<close> are positions in the vector. Where the
  operation at \<open>opIt\<close> is not unitary and is neither a Reset, a Measure nor a
  ClassicControlled operation, no branch of the body moves a cursor and the loop spins
  on it for ever; the model returns \<open>InfiniteLoop\<close> there.
\<close>

function deferScan ::
  "Qubit \<Rightarrow> nat \<Rightarrow> Targets \<Rightarrow> nat list \<Rightarrow> Operation list \<Rightarrow> nat \<Rightarrow> nat
     \<Rightarrow> error + Operation list" where
  "deferScan measurementQubit measurementBit targets cls os opIt currentInsertionPoint =
     (if length os \<le> opIt then Inr os
      else
        let operation = os ! opIt in
        if isUnitary operation then
          deferScan measurementQubit measurementBit targets cls os (Suc opIt)
            (if \<not> actsOn operation measurementQubit then Suc currentInsertionPoint
             else currentInsertionPoint)
        else if getType operation = Reset then Inl QFRException
        else if asNonUnitaryOperation operation \<and> getType operation = Measure then
          (if targets = getTargets operation \<and> cls = classics operation then Inr os
           else deferScan measurementQubit measurementBit targets cls os (Suc opIt)
                  (Suc currentInsertionPoint))
        else
          (case operation of
             ClassicControlledOperation cop controlRegister expectedValue \<Rightarrow>
               if snd controlRegister \<noteq> 1 \<and> expectedValue \<le> 1 then Inl QFRException
               else if fst controlRegister = castQubit measurementBit then
                 (case cop of
                    StandardOperation ty cs targs parameters \<Rightarrow>
                      if list_ex (\<lambda>target. target = measurementQubit) targs
                      then Inl QFRException
                      else
                        let controls = emplaceControl
                              (Control measurementQubit
                                 (if expectedValue = 1 then Pos else Neg)) cs;
                            insertionPointInvalidated = (opIt \<le> currentInsertionPoint);
                            os1 = eraseAt os opIt;
                            ip1 = (if insertionPointInvalidated then opIt
                                   else currentInsertionPoint);
                            os2 = insertAt os1 ip1
                                    (StandardOperation ty controls targs parameters);
                            ip2 = Suc ip1
                        in deferScan measurementQubit measurementBit targets cls os2 ip2 ip2
                  | _ \<Rightarrow> Inl QFRException)
               else
                 deferScan measurementQubit measurementBit targets cls os (Suc opIt)
                   (if \<not> actsOn operation measurementQubit then Suc currentInsertionPoint
                    else currentInsertionPoint)
           | _ \<Rightarrow> Inl InfiniteLoop))"
  by pat_completeness auto
termination
  by (relation "measures [\<lambda>(mq, mb, ts, cls, os, opIt, ip). classicCount os,
                            \<lambda>(mq, mb, ts, cls, os, opIt, ip). length os - opIt]")
     (auto simp: Let_def intro!: classicCount_rewrite)

declare deferScan.simps [simp del]

lemma insert_erase_length:
  "opIt < length os \<Longrightarrow> k \<le> opIt \<Longrightarrow> length (insertAt (eraseAt os opIt) k x) = length os"
  by (auto simp: insertAt_def eraseAt_def min_def)

lemma deferScan_length:
  "deferScan mq mb ts cls os opIt ip = Inr os' \<Longrightarrow> length os' = length os"
proof (induction mq mb ts cls os opIt ip rule: deferScan.induct)
  case (1 mq mb ts cls os opIt ip)
  note run = "1.prems" [unfolded deferScan.simps [of mq mb ts cls os opIt ip]]
  show ?case
  proof (cases "length os \<le> opIt")
    case True
    with run show ?thesis by simp
  next
    case False
    from False run "1.IH" show ?thesis
      by (auto simp: Let_def insert_erase_length split: if_splits Operation.splits)
  qed
qed

text \<open>
  \<open>qubitsToAddMeasurements[q] = b\<close> on the unordered map of measured qubits. The order
  in which the container is iterated is left to the implementation; the model keeps
  the entries as the hash table does while it holds few keys, a new key in front of the
  older ones, and an assignment to a key already present in place.
\<close>

fun updateMeasurement :: "(Qubit \<times> nat) list \<Rightarrow> Qubit \<Rightarrow> nat \<Rightarrow> (Qubit \<times> nat) list" where
  "updateMeasurement [] q b = []"
| "updateMeasurement ((k, v) # m) q b =
     (if k = q then (k, b) # m else (k, v) # updateMeasurement m q b)"

definition rememberMeasurement :: "(Qubit \<times> nat) list \<Rightarrow> Qubit \<Rightarrow> nat \<Rightarrow> (Qubit \<times> nat) list" where
  "rememberMeasurement m q b =
     (if list_ex (\<lambda>kv. fst kv = q) m then updateMeasurement m q b else (q, b) # m)"

text \<open>
  The outer loop. A Measure at the cursor is checked for its shape, left alone when it
  is the last operation (the loop ends there), and otherwise erased and followed by the
  inner scan; the cursor then advances by one, past the operation that took the place
  of the erased Measure.
\<close>

function deferLoop ::
  "Operation list \<Rightarrow> nat \<Rightarrow> (Qubit \<times> nat) list
     \<Rightarrow> error + (Operation list \<times> (Qubit \<times> nat) list)" where
  "deferLoop os it qubitsToAddMeasurements =
     (if length os \<le> it then Inr (os, qubitsToAddMeasurements)
      else if asNonUnitaryOperation (os ! it) \<and> getType (os ! it) = Measure then
        (let targets = getTargets (os ! it); cls = classics (os ! it) in
         if length targets \<noteq> 1 \<and> length cls \<noteq> 1 then Inl QFRException
         else if Suc it = length os then Inr (os, qubitsToAddMeasurements)
         else
           (case (targets, cls) of
              (measurementQubit # ts, measurementBit # bs) \<Rightarrow>
                (case deferScan measurementQubit measurementBit targets cls
                        (eraseAt os it) it it of
                   Inl e \<Rightarrow> Inl e
                 | Inr os2 \<Rightarrow>
                     deferLoop os2 (Suc it)
                       (rememberMeasurement qubitsToAddMeasurements
                          measurementQubit measurementBit))
            | _ \<Rightarrow> Inl UndefinedBehaviour))
      else deferLoop os (Suc it) qubitsToAddMeasurements)"
  by pat_completeness auto
termination
  by (relation "measure (\<lambda>(os, it, m). length os - it)")
     (auto simp: eraseAt_def dest!: deferScan_length)

declare deferLoop.simps [simp del]

text \<open>
  The pass on the operation sequence of a circuit with \<open>nq\<close> qubits: after the loop one
  Measure per remembered qubit is appended. The layouts, which the pass resets at its
  end through a function of the circuit container, are not part of this model.
\<close>

definition deferMeasurementsOps :: "nat \<Rightarrow> Operation list \<Rightarrow> error + Operation list" where
  "deferMeasurementsOps nq os =
     (case deferLoop os 0 [] of
        Inl e \<Rightarrow> Inl e
      | Inr (os', qubitsToAddMeasurements) \<Rightarrow>
          Inr (os' @ map (\<lambda>(q, clbit). MeasureSingle nq q clbit) qubitsToAddMeasurements))"

section \<open>reorderOperations\<close>




text \<open>The iterators of qubit \<open>q\<close> and of every qubit the operation acts on move on.\<close>

definition advanceIterators ::
  "('r \<Rightarrow> Qubit \<Rightarrow> bool) \<Rightarrow> 'r \<Rightarrow> Qubit \<Rightarrow> 'r list list \<Rightarrow> 'r list list" where
  "advanceIterators act r q dagIterators =
     map (\<lambda>i. if i = q \<or> act r i then tl (dagIterators ! i) else dagIterators ! i)
       [0..<length dagIterators]"




lemma advance_length [simp]: "length (advanceIterators act r q its) = length its"
  by (simp add: advanceIterators_def)











text \<open>
  Notions used to reason about the pass. \<open>regQubits\<close> lists the qubits on whose lanes
  \<open>constructDAG\<close> registers an operation, and \<open>lanesOf n i os\<close> is the lane DAG of the
  operations \<open>os\<close>, numbered from \<open>i\<close>, written as a closed expression: lane \<open>q\<close> holds the
  positions of the operations registered on \<open>q\<close>, in ascending order, each as often as
  the operation lists \<open>q\<close>.
\<close>

definition regQubits :: "Operation \<Rightarrow> Qubit list" where
  "regQubits opr =
     (case opr of
        CompoundOperation cs \<Rightarrow> getUsedQubits opr
      | NonUnitaryOperation ty nq ts qs cls ps \<Rightarrow> getTargets opr
      | ClassicControlledOperation cop reg v \<Rightarrow> map qubit (getControls cop) @ getTargets cop
      | StandardOperation ty cs ts ps \<Rightarrow> map qubit (getControls opr) @ getTargets opr)"

definition lanesOf :: "nat \<Rightarrow> nat \<Rightarrow> Operation list \<Rightarrow> nat DAG" where
  "lanesOf n i os =
     map (\<lambda>q. concat (map (\<lambda>k. replicate (count_list (regQubits (os ! k)) q) (i + k))
                         [0..<length os])) [0..<n]"





section \<open>Properties of the non-unitary operations\<close>

text \<open>
  C10: for a NonUnitaryOperation whose type is Barrier, Snapshot or ShowProbabilities,
  \<open>actsOn q\<close> is false for every qubit, also for one listed among its targets; and
  \<open>actsOn q\<close> is true only for a Measure with \<open>q\<close> among its measured qubits or a Reset
  with \<open>q\<close> among its targets.
\<close>

theorem actsOn_nonunitary:
  "(ty \<in> {Barrier, Snapshot, ShowProbabilities} \<longrightarrow> \<not> NonUnitary_actsOn ty ts qs q)
   \<and> (NonUnitary_actsOn ty ts qs q \<longleftrightarrow>
        (ty = Measure \<and> q \<in> set qs) \<or> (ty = Reset \<and> q \<in> set ts))"
  by (auto simp: list_ex_iff)

theorem actsOn_nonunitary_witness:
  "Barrier \<in> {Barrier, Snapshot, ShowProbabilities}
   \<and> 1 \<in> set [0, 1::nat]
   \<and> \<not> NonUnitary_actsOn Barrier [0, 1] [] 1
   \<and> NonUnitary_actsOn Measure [] [0, 1] 1
   \<and> NonUnitary_actsOn Reset [0, 1] [] 1"
  using actsOn_nonunitary [of Barrier "[0, 1]" "[]" 1]
        actsOn_nonunitary [of Measure "[]" "[0, 1]" 1]
        actsOn_nonunitary [of Reset "[0, 1]" "[]" 1]
  by simp

text \<open>
  C9: every Measure built by a constructor of the file has a measured-qubit list and a
  classical-bit list of equal length, paired position by position exactly as the caller
  listed them; the register constructor throws precisely when its two lists differ in
  length.
\<close>

theorem measure_invariant:
  "(constructNonUnitary c = Inr opr \<and> getType opr = Measure \<longrightarrow>
      length (qubits opr) = length (classics opr))
   \<and> (MeasureRegisters nq qs cls = Inl InvalidArgument \<longleftrightarrow> length qs \<noteq> length cls)
   \<and> (MeasureRegisters nq qs cls = Inr opr' \<longrightarrow>
        zip (qubits opr') (classics opr') = zip qs cls \<and> getType opr' = Measure)
   \<and> zip (qubits (MeasureSingle nq q b)) (classics (MeasureSingle nq q b)) = [(q, b)]"
  by (cases c)
     (auto simp: MeasureRegisters_def MeasureSingle_def NonUnitarySnapshot_def
        NonUnitaryGeneral_def split: if_splits)

theorem measure_invariant_witness:
  "constructNonUnitary (CtorMeasureRegisters 3 [2, 0] [0, 1])
     = Inr (NonUnitaryOperation Measure 3 [] [2, 0] [0, 1] defaultParameter)
   \<and> MeasureRegisters 3 [2, 0] [0, 1]
     = Inr (NonUnitaryOperation Measure 3 [] [2, 0] [0, 1] defaultParameter)
   \<and> getType (NonUnitaryOperation Measure 3 [] [2, 0] [0, 1] defaultParameter) = Measure
   \<and> length (qubits (NonUnitaryOperation Measure 3 [] [2, 0] [0, 1] defaultParameter))
       = length (classics (NonUnitaryOperation Measure 3 [] [2, 0] [0, 1] defaultParameter))
   \<and> zip (qubits (NonUnitaryOperation Measure 3 [] [2, 0] [0, 1] defaultParameter))
         (classics (NonUnitaryOperation Measure 3 [] [2, 0] [0, 1] defaultParameter))
       = [(2, 0), (0, 1)]
   \<and> MeasureRegisters 3 [2, 0] [0] = Inl InvalidArgument
   \<and> length [2, 0::nat] \<noteq> length [0::nat]"
  using measure_invariant [of "CtorMeasureRegisters 3 [2, 0] [0, 1]"
          "NonUnitaryOperation Measure 3 [] [2, 0] [0, 1] defaultParameter" 3 "[2, 0]" "[0]"]
        measure_invariant [of "CtorMeasureRegisters 3 [2, 0] [0, 1]"
          "NonUnitaryOperation Measure 3 [] [2, 0] [0, 1] defaultParameter" 3 "[2, 0]" "[0, 1]"
          "NonUnitaryOperation Measure 3 [] [2, 0] [0, 1] defaultParameter"]
  by (simp add: MeasureRegisters_def)

section \<open>Properties of removeIdentities\<close>

lemma eraseIdentityChildren_filter:
  "eraseIdentityChildren cs = filter (\<lambda>c. getType c \<noteq> I) cs"
  by (induction cs) auto

lemma removeIdentitiesOps_concat: "removeIdentitiesOps os = concat (map riOne os)"
  by (induction os)
     (auto simp: riOne_def eraseIdentityChildren_filter Let_def split: Operation.splits)

lemma children_noncompound: "\<not> isCompoundOperation c \<Longrightarrow> children c = []"
  by (cases c) auto

lemma hd_filter_in:
  assumes "filter P xs \<noteq> []"
  shows "hd (filter P xs) \<in> set xs \<and> P (hd (filter P xs))"
proof -
  from assms have "hd (filter P xs) \<in> set (filter P xs)" by (rule hd_in_set)
  then show ?thesis by simp
qed

lemma riOne_fixed:
  assumes "list_all (\<lambda>c. \<not> isCompoundOperation c) (children opr)" and "e \<in> set (riOne opr)"
  shows "riOne e = [e] \<and> getType e \<noteq> I \<and> list_all (\<lambda>c. getType c \<noteq> I) (children e)
         \<and> list_all (\<lambda>c. \<not> isCompoundOperation c) (children e)"
proof (cases "getType opr = I")
  case True
  with assms show ?thesis by (simp add: riOne_def)
next
  case notI: False
  show ?thesis
  proof (cases "isCompoundOperation opr")
    case False
    with notI assms have "e = opr" by (simp add: riOne_def)
    with False notI show ?thesis by (simp add: riOne_def children_noncompound)
  next
    case True
    let ?k = "filter (\<lambda>c. getType c \<noteq> I) (children opr)"
    from True notI assms have ne: "?k \<noteq> []"
      by (auto simp: riOne_def Let_def split: if_splits)
    show ?thesis
    proof (cases "length ?k = 1")
      case True
      with \<open>isCompoundOperation opr\<close> notI assms ne have e: "e = hd ?k"
        by (simp add: riOne_def Let_def)
      from hd_filter_in [OF ne] have "hd ?k \<in> set (children opr)" "getType (hd ?k) \<noteq> I"
        by auto
      with assms(1) e have "\<not> isCompoundOperation e" "getType e \<noteq> I"
        by (auto simp: list_all_iff)
      then show ?thesis by (simp add: riOne_def children_noncompound)
    next
      case False
      with \<open>isCompoundOperation opr\<close> notI assms ne have e: "e = CompoundOperation ?k"
        by (simp add: riOne_def Let_def)
      with False ne assms(1) show ?thesis
        by (auto simp: riOne_def Let_def list_all_iff)
    qed
  qed
qed

lemma concat_map_fixed: "(\<And>x. x \<in> set xs \<Longrightarrow> f x = [x]) \<Longrightarrow> concat (map f xs) = xs"
  by (induction xs) auto

text \<open>
  C2 (as stated): running removeIdentities twice gives the same circuit as running it
  once, and after one run no identity remains at any nesting level. This fails on a
  Compound whose only child is a Compound holding an identity: the first run promotes
  the inner Compound unexamined, the second run erases it.
\<close>

theorem removeIdentities_nested_counterexample:
  "removeIdentities (removeIdentities (circuit 1
      [CompoundOperation [CompoundOperation [StandardOperation I [] [0] defaultParameter]]]))
   \<noteq> removeIdentities (circuit 1
      [CompoundOperation [CompoundOperation [StandardOperation I [] [0] defaultParameter]]])
   \<and> \<not> noIdentity (ops (removeIdentities (circuit 1
      [CompoundOperation [CompoundOperation [StandardOperation I [] [0] defaultParameter]]])))"
proof -
  let ?qc = "circuit 1
      [CompoundOperation [CompoundOperation [StandardOperation I [] [0] defaultParameter]]]"
  have once: "ops (removeIdentities ?qc)
      = [CompoundOperation [StandardOperation I [] [0] defaultParameter]]"
    by (simp add: removeIdentities_def circuit_def)
  have twice: "ops (removeIdentities (removeIdentities ?qc)) = []"
    by (simp add: removeIdentities_def circuit_def)
  have "removeIdentities (removeIdentities ?qc) \<noteq> removeIdentities ?qc"
  proof
    assume "removeIdentities (removeIdentities ?qc) = removeIdentities ?qc"
    then have "ops (removeIdentities (removeIdentities ?qc)) = ops (removeIdentities ?qc)"
      by (rule arg_cong)
    with once twice show False by simp
  qed
  moreover have "\<not> noIdentity (ops (removeIdentities ?qc))"
    by (simp only: once) (simp add: noIdentity_def)
  ultimately show ?thesis by (rule conjI)
qed

text \<open>
  C2 (amended): for every circuit in which no Compound has a Compound among its
  children, running removeIdentities twice gives the same circuit as running it once,
  and after one run no operation with the identity type tag remains at the top level or
  among the children of a Compound.
\<close>

theorem removeIdentities_flat:
  assumes "flatCompounds (ops qc)"
  shows "removeIdentities (removeIdentities qc) = removeIdentities qc
         \<and> noIdentity (ops (removeIdentities qc))"
proof -
  have each: "riOne e = [e] \<and> getType e \<noteq> I \<and> list_all (\<lambda>c. getType c \<noteq> I) (children e)"
    if "e \<in> set (removeIdentitiesOps (ops qc))" for e
  proof -
    from that obtain opr where o: "opr \<in> set (ops qc)" "e \<in> set (riOne opr)"
      by (auto simp: removeIdentitiesOps_concat)
    from o(1) assms have "list_all (\<lambda>c. \<not> isCompoundOperation c) (children opr)"
      by (simp add: flatCompounds_def list_all_iff)
    from riOne_fixed [OF this o(2)] show ?thesis by simp
  qed
  have "concat (map riOne (removeIdentitiesOps (ops qc))) = removeIdentitiesOps (ops qc)"
    by (rule concat_map_fixed) (simp add: each)
  then have "removeIdentitiesOps (removeIdentitiesOps (ops qc)) = removeIdentitiesOps (ops qc)"
    by (simp add: removeIdentitiesOps_concat [symmetric])
  moreover have "noIdentity (removeIdentitiesOps (ops qc))"
    using each by (simp add: noIdentity_def list_all_iff)
  ultimately show ?thesis by (simp add: removeIdentities_def)
qed

theorem removeIdentities_flat_witness:
  "flatCompounds (ops (circuit 2 [StandardOperation I [] [0] defaultParameter,
       CompoundOperation [StandardOperation I [] [0] defaultParameter,
                          StandardOperation X [] [1] defaultParameter]]))
   \<and> ops (removeIdentities (circuit 2 [StandardOperation I [] [0] defaultParameter,
       CompoundOperation [StandardOperation I [] [0] defaultParameter,
                          StandardOperation X [] [1] defaultParameter]]))
       = [StandardOperation X [] [1] defaultParameter]
   \<and> removeIdentities (removeIdentities (circuit 2 [StandardOperation I [] [0] defaultParameter,
       CompoundOperation [StandardOperation I [] [0] defaultParameter,
                          StandardOperation X [] [1] defaultParameter]]))
     = removeIdentities (circuit 2 [StandardOperation I [] [0] defaultParameter,
       CompoundOperation [StandardOperation I [] [0] defaultParameter,
                          StandardOperation X [] [1] defaultParameter]])
   \<and> noIdentity (ops (removeIdentities (circuit 2 [StandardOperation I [] [0] defaultParameter,
       CompoundOperation [StandardOperation I [] [0] defaultParameter,
                          StandardOperation X [] [1] defaultParameter]])))"
proof -
  let ?qc = "circuit 2 [StandardOperation I [] [0] defaultParameter,
       CompoundOperation [StandardOperation I [] [0] defaultParameter,
                          StandardOperation X [] [1] defaultParameter]]"
  have flat: "flatCompounds (ops ?qc)"
    by (simp add: circuit_def flatCompounds_def)
  have res: "ops (removeIdentities ?qc) = [StandardOperation X [] [1] defaultParameter]"
    by (simp add: circuit_def removeIdentities_def)
  from flat res removeIdentities_flat [OF flat] show ?thesis by blast
qed

section \<open>Properties of decomposeSWAP\<close>

lemma two_targets:
  assumes "2 \<le> length ts"
  obtains t0 t1 others where "ts = t0 # t1 # others"
proof (cases ts)
  case Nil
  with assms show ?thesis by simp
next
  case (Cons a as)
  with assms show ?thesis using that by (cases as) auto
qed

lemma specSWAP_CNOT [simp]: "specSWAP (ControlledGate a b X) = [ControlledGate a b X]"
  by (simp add: specSWAP_def ControlledGate_def)

lemma swapHasTargets_CNOT [simp]: "swapHasTargets (ControlledGate a b X)"
  by (simp add: swapHasTargets_def ControlledGate_def)

lemma insertReplacement_undirected:
  "insertReplacement False t0 t1 rest =
     ControlledGate t0 t1 X # ControlledGate t1 t0 X # ControlledGate t0 t1 X # rest"
  by (simp add: insertReplacement_def)

lemma specSWAP_swap:
  "isStandardOperation opr \<Longrightarrow> getType opr = SWAP \<Longrightarrow> getTargets opr = t0 # t1 # others \<Longrightarrow>
   specSWAP opr = [ControlledGate t0 t1 X, ControlledGate t1 t0 X, ControlledGate t0 t1 X]"
  by (simp add: specSWAP_def CNOT_def ControlledGate_def)

lemma decomposeSWAPChildren_spec:
  "list_all swapHasTargets cs \<Longrightarrow>
   decomposeSWAPChildren False cs = Inr (concat (map specSWAP cs))"
proof (induction "False" cs rule: decomposeSWAPChildren.induct)
  case 1
  then show ?case by simp
next
  case (2 cit rest)
  show ?case
  proof (cases "isStandardOperation cit \<and> getType cit = SWAP")
    case True
    with 2(3) have "2 \<le> length (getTargets cit)" by (simp add: swapHasTargets_def)
    then obtain t0 t1 others where ts: "getTargets cit = t0 # t1 # others"
      by (rule two_targets)
    from 2(3) have "list_all swapHasTargets (insertReplacement False t0 t1 rest)"
      by (simp add: insertReplacement_undirected)
    from 2(1) [OF True ts refl this] True ts show ?thesis
      by (simp add: insertReplacement_undirected specSWAP_swap [OF _ _ ts])
  next
    case False
    with 2 show ?thesis by (auto simp: specSWAP_def)
  qed
qed

lemma standard_not_compound: "isStandardOperation c \<Longrightarrow> \<not> isCompoundOperation c"
  by (cases c) auto

lemma decomposeSWAPOps_spec:
  "wellFormedSWAPs os \<Longrightarrow> decomposeSWAPOps False os = Inr (specDecomposeSWAP os)"
proof (induction "False" os rule: decomposeSWAPOps.induct)
  case 1
  then show ?case by (simp add: specDecomposeSWAP_def)
next
  case (2 it rest)
  from 2(5) have wf: "swapHasTargets it" "list_all swapHasTargets (children it)"
    "wellFormedSWAPs rest"
    by (simp_all add: wellFormedSWAPs_def)
  show ?case
  proof (cases "isStandardOperation it")
    case std: True
    show ?thesis
    proof (cases "getType it = SWAP")
      case True
      with std wf have "2 \<le> length (getTargets it)" by (simp add: swapHasTargets_def)
      then obtain t0 t1 others where ts: "getTargets it = t0 # t1 # others"
        by (rule two_targets)
      from wf have "wellFormedSWAPs (insertReplacement False t0 t1 rest)"
        by (simp add: insertReplacement_undirected wellFormedSWAPs_def ControlledGate_def
              swapHasTargets_def)
      from 2(1) [OF std True ts refl this] std True ts show ?thesis
        by (simp add: insertReplacement_undirected specDecomposeSWAP_def
              specSWAP_swap [OF _ _ ts] standard_not_compound ControlledGate_def specSWAP_def
              CNOT_def)
    next
      case False
      with std 2(2) wf show ?thesis
        by (simp add: specDecomposeSWAP_def specSWAP_def standard_not_compound)
    qed
  next
    case nstd: False
    show ?thesis
    proof (cases "isCompoundOperation it")
      case True
      with nstd 2(3) wf decomposeSWAPChildren_spec [OF wf(2)] show ?thesis
        by (simp add: specDecomposeSWAP_def)
    next
      case False
      with nstd 2(4) wf show ?thesis
        by (simp add: specDecomposeSWAP_def specSWAP_def)
    qed
  qed
qed

text \<open>
  C6 (as stated): the undirected pass replaces each SWAP, at the top level and nested
  inside Compound operations, by three CNOTs. A SWAP inside a Compound that is itself
  the child of a Compound is left as it is: the pass returns this circuit unchanged.
\<close>

theorem decomposeSWAP_nested_counterexample:
  "decomposeSWAP (circuit 2
      [CompoundOperation [CompoundOperation [StandardOperation SWAP [] [0, 1] defaultParameter]]])
     False
   = Inr (circuit 2
      [CompoundOperation [CompoundOperation [StandardOperation SWAP [] [0, 1] defaultParameter]]])"
  by (simp add: decomposeSWAP_def circuit_def)

text \<open>
  C6 (amended): for every circuit whose SWAPs have two targets, decomposeSWAP with
  \<open>directed = false\<close> replaces each SWAP on \<open>(a, b)\<close> that stands at the top level or is a
  child of a top-level Compound by exactly CNOT(a,b); CNOT(b,a); CNOT(a,b) at the
  SWAP's position, and leaves every other operation unchanged.
\<close>

theorem decomposeSWAP_undirected:
  "wellFormedSWAPs (ops qc) \<Longrightarrow>
   decomposeSWAP qc False = Inr (qc\<lparr>ops := specDecomposeSWAP (ops qc)\<rparr>)"
  by (simp add: decomposeSWAP_def decomposeSWAPOps_spec)

theorem decomposeSWAP_undirected_witness:
  "wellFormedSWAPs (ops (circuit 2
      [StandardGate 1 H, StandardOperation SWAP [] [0, 1] defaultParameter,
       CompoundOperation [StandardOperation SWAP [] [1, 0] defaultParameter,
                          StandardGate 0 Z]]))
   \<and> decomposeSWAP (circuit 2
      [StandardGate 1 H, StandardOperation SWAP [] [0, 1] defaultParameter,
       CompoundOperation [StandardOperation SWAP [] [1, 0] defaultParameter,
                          StandardGate 0 Z]]) False
     = Inr (circuit 2
      [StandardGate 1 H, CNOT 0 1, CNOT 1 0, CNOT 0 1,
       CompoundOperation [CNOT 1 0, CNOT 0 1, CNOT 1 0, StandardGate 0 Z]])"
proof -
  let ?os = "[StandardGate 1 H, StandardOperation SWAP [] [0, 1] defaultParameter,
       CompoundOperation [StandardOperation SWAP [] [1, 0] defaultParameter,
                          StandardGate 0 Z]]"
  have wf: "wellFormedSWAPs (ops (circuit 2 ?os))"
    by (simp add: circuit_def wellFormedSWAPs_def swapHasTargets_def StandardGate_def)
  have "specDecomposeSWAP ?os = [StandardGate 1 H, CNOT 0 1, CNOT 1 0, CNOT 0 1,
       CompoundOperation [CNOT 1 0, CNOT 0 1, CNOT 1 0, StandardGate 0 Z]]"
    by (simp add: specDecomposeSWAP_def specSWAP_def StandardGate_def)
  with wf decomposeSWAP_undirected [OF wf] show ?thesis
    by (simp add: circuit_def)
qed

section \<open>Properties of isDynamicCircuit\<close>

text \<open>
  C7: isDynamicCircuit is true for every circuit with a Reset or a
  ClassicControlledOperation anywhere, at the top level or inside a Compound. The loop
  over the children of a Compound looks for exactly these, but the scan asks
  \<open>isNonUnitaryOperation\<close> before \<open>isCompoundOperation\<close>, and a Compound with a Reset among
  its children answers the first question with yes: it is treated as one non-unitary
  operation, which is neither a Reset nor a Measure and has no targets of its own, and
  its children are never looked at. On the circuit made of one Compound holding a Reset
  of qubit 0 the function returns false.
\<close>

theorem isDynamicCircuit_compound_reset:
  "isDynamicCircuit (circuit 1 [CompoundOperation [NonUnitaryGeneral 1 [0] Reset]])
     = Inr False"
  by (simp add: isDynamicCircuit_def circuit_def emptyDAG_def highestPhysicalQubit_def
        NonUnitaryGeneral_def)

section \<open>Properties of the lane DAG\<close>


section \<open>Properties of swapReconstruction\<close>

lemma bindE_simps [simp]: "bindE (Inl e) f = Inl e" "bindE (Inr x) f = f x"
  by (simp_all add: bindE_def)

lemma ops_circuit [simp]: "ops (circuit n os) = os"
  by (simp add: circuit_def)

lemma ops_update_circuit [simp]: "(circuit n os)\<lparr>ops := os'\<rparr> = circuit n os'"
  by (simp add: circuit_def)

lemma highest_circuit [simp]: "highestPhysicalQubit (circuit n os) = n - 1"
proof -
  have "fold (\<lambda>q h. max (fst q) h) (map (\<lambda>q. (q, q)) [0..<n]) 0 = n - 1"
    by (induction n) (auto simp: max_def)
  then show ?thesis by (simp add: highestPhysicalQubit_def circuit_def)
qed

text \<open>
  C1 (as stated): when the operation met last on both qubits of a positive-control CNOT
  is the reversed CNOT, the earlier operation becomes a SWAP with ascending targets and
  the current operation keeps its control and its target. On the circuit CNOT(1,0);
  CNOT(0,1) the current operation, control 0 and target 1, comes out with control 1
  and target 0.
\<close>

theorem swapReconstruction_counterexample:
  "swapReconstruction (circuit 2 [CNOT 1 0, CNOT 0 1])
     = Inr (circuit 2 [StandardOperation SWAP [] [0, 1] defaultParameter, CNOT 1 0])
   \<and> getControls (CNOT 1 0) \<noteq> getControls (CNOT 0 1)
   \<and> getTargets (CNOT 1 0) \<noteq> getTargets (CNOT 0 1)"
  by (simp add: swapReconstruction_def CNOT_def emptyDAG_def
        swapReconstructionStep_def isPosCNOT_def getNcontrols_def
        vecAt_def popBack_def addToDag_def dagPush_def removeIdentities_def Let_def)

text \<open>
  C1 (amended): when swapReconstruction meets a positive-control single-target CNOT
  with control \<open>c\<close> and target \<open>t\<close>, and the operation met last on both lanes is one and
  the same operation and is the reversed CNOT (control \<open>t\<close>, target \<open>c\<close>), the earlier
  operation becomes a SWAP on the two qubits with targets in ascending order and the
  current operation becomes the CNOT with control and target exchanged: control \<open>t\<close>,
  target \<open>c\<close>, the direction of the earlier operation.
\<close>

theorem swapReconstruction_reversed:
  assumes cur: "os ! i = StandardOperation X [Control c Pos] (t # ts) ps"
    and prev: "os ! j = StandardOperation X [Control t Pos] (c # ts') ps'"
    and idx: "j < i" "i < length os"
    and lanes: "c < length dag" "t < length dag" "dag ! c \<noteq> []" "dag ! t \<noteq> []"
      "last (dag ! c) = j" "last (dag ! t) = j"
    and ne: "c \<noteq> t"
  shows "\<exists>os' dag'. swapReconstructionStep (os, dag) i = Inr (os', dag')
      \<and> os' ! j = StandardOperation SWAP [] [min c t, max c t] ps'
      \<and> os' ! i = StandardOperation X [Control t Pos] [c] ps"
  using assms
  by (auto simp: swapReconstructionStep_def isPosCNOT_def getNcontrols_def
        vecAt_def popBack_def addToDag_def dagPush_def Let_def min_def max_def)

theorem swapReconstruction_reversed_witness:
  "[CNOT 1 0, CNOT 0 1] ! 1 = StandardOperation X [Control 0 Pos] (1 # []) defaultParameter
   \<and> [CNOT 1 0, CNOT 0 1] ! 0 = StandardOperation X [Control 1 Pos] (0 # []) defaultParameter
   \<and> (0::nat) < 1 \<and> 1 < length [CNOT 1 0, CNOT 0 1]
   \<and> 0 < length [[0::nat], [0]] \<and> 1 < length [[0::nat], [0]]
   \<and> [[0::nat], [0]] ! 0 \<noteq> [] \<and> [[0::nat], [0]] ! 1 \<noteq> []
   \<and> last ([[0::nat], [0]] ! 0) = 0 \<and> last ([[0::nat], [0]] ! 1) = 0
   \<and> (0::nat) \<noteq> 1
   \<and> (\<exists>os' dag'. swapReconstructionStep ([CNOT 1 0, CNOT 0 1], [[0], [0]]) 1 = Inr (os', dag')
      \<and> os' ! 0 = StandardOperation SWAP [] [min 0 1, max 0 1] defaultParameter
      \<and> os' ! 1 = StandardOperation X [Control 1 Pos] [0] defaultParameter)"
proof -
  have cur: "[CNOT 1 0, CNOT 0 1] ! 1
      = StandardOperation X [Control 0 Pos] (1 # []) defaultParameter"
    and prev: "[CNOT 1 0, CNOT 0 1] ! 0
      = StandardOperation X [Control 1 Pos] (0 # []) defaultParameter"
    by (simp_all add: CNOT_def)
  have idx: "(0::nat) < 1" "1 < length [CNOT 1 0, CNOT 0 1]" by simp_all
  have lanes: "0 < length [[0::nat], [0]]" "1 < length [[0::nat], [0]]"
    "[[0::nat], [0]] ! 0 \<noteq> []" "[[0::nat], [0]] ! 1 \<noteq> []"
    "last ([[0::nat], [0]] ! 0) = 0" "last ([[0::nat], [0]] ! 1) = 0"
    by simp_all
  have ne: "(0::nat) \<noteq> 1" by simp
  from swapReconstruction_reversed [OF cur prev idx lanes ne] cur prev idx lanes ne
  show ?thesis by blast
qed

section \<open>Properties of deferMeasurements\<close>

text \<open>
  C4: for every Measure with more than one target qubit that deferMeasurements
  encounters, the pass raises the unsupported-measurement-shape error and never
  processes it silently. The shape test is made where the outer loop stands on a
  Measure. After a Measure was erased the cursor is on the operation that followed it,
  and the loop then advances the cursor once more, so that operation is never tested:
  a Measure of qubits 1 and 2 that follows a deferred Measure of qubit 0 is passed over
  by the inner scan and the pass ends without an error. The Measure of two qubits is the
  one the register constructor builds.
\<close>

theorem deferMeasurements_skips_multi_target:
  "MeasureRegisters 3 [1, 2] [1, 2]
     = Inr (NonUnitaryOperation Measure 3 [] [1, 2] [1, 2] defaultParameter)
   \<and> deferMeasurementsOps 3
     [MeasureSingle 3 0 0,
      NonUnitaryOperation Measure 3 [] [1, 2] [1, 2] defaultParameter,
      StandardGate 0 X]
   = Inr [NonUnitaryOperation Measure 3 [] [1, 2] [1, 2] defaultParameter,
          StandardGate 0 X,
          MeasureSingle 3 0 0]"
  by (simp add: deferMeasurementsOps_def deferLoop.simps deferScan.simps MeasureSingle_def
        MeasureRegisters_def StandardGate_def eraseAt_def rememberMeasurement_def Let_def)

text \<open>
  C5: whenever deferMeasurements encounters a ClassicControlledOperation whose control
  register spans more than one bit, it raises the unsupported-classical-control-shape
  error, whatever the expected value. The test of the code is
  \<open>controlRegister.second != 1 && expectedValue <= 1\<close>: with a register of two bits and
  the expected value 2 nothing is thrown, and the operation is rewritten as if it were
  controlled by the one measured bit, with a negative control.
\<close>

theorem deferMeasurements_multi_bit_register:
  "deferMeasurementsOps 2
     [MeasureSingle 2 0 0, ClassicControlledOperation (StandardGate 1 X) (0, 2) 2]
   = Inr [StandardOperation X [Control 0 Neg] [1] defaultParameter, MeasureSingle 2 0 0]"
  by (simp add: deferMeasurementsOps_def deferLoop.simps deferScan.simps MeasureSingle_def
        StandardGate_def eraseAt_def insertAt_def rememberMeasurement_def castQubit_def
        Let_def)

section \<open>Properties of reorderOperations\<close>



































lemma lanesOf_length [simp]: "length (lanesOf n i os) = n"
  by (simp add: lanesOf_def)










end
